theory Spec2Isabelle
  imports Main "HOL-Library.Word"
begin

section \<open>The bridge module \<open>src/index.js\<close>\<close>

text \<open>
  The module is the only program text of the repository.  It exports two constants and
  two functions; both functions do nothing but start a shell command through
  \<open>child_process.execSync\<close> of the Node.js platform.  The platform is not part of
  the repository, so it is a parameter of the model (a \<open>host\<close>), and \<open>execSync\<close> is
  written on top of it as the Node.js documentation and sources describe it.

  The alignment engine behind the \<open>skskyforge\<close> command (profiles, daily reports,
  calculators, calendars, formatters) is not in this program text: the module only
  starts the command and hands back what it printed.  Nothing of the engine is modelled
  here.
\<close>

subsection \<open>The platform: strings, buffers, child processes\<close>

text \<open>
  A JavaScript string is a sequence of 16-bit code units; a \<open>Buffer\<close> is a sequence of
  bytes.  \<open>js\<close> writes a string literal of the source (ASCII) as code units.
\<close>

type_synonym jsstring = "16 word list"

type_synonym buffer = "8 word list"

definition js :: "string \<Rightarrow> jsstring" where
  "js s = map of_char s"

text \<open>
  What \<open>spawnSync\<close> reports about a child that has ended: \<open>error\<close> is set (to the
  error's code) when the child could not be started, ran into the time limit or
  overflowed \<open>maxBuffer\<close>; \<open>status\<close> is the exit code, or \<open>null\<close> (here \<open>None\<close>)
  when a signal ended the child; \<open>stdout\<close> and \<open>stderr\<close> are the bytes the child
  wrote.
\<close>

record spawn_result =
  error :: "jsstring option"
  status :: "int option"
  stdout :: buffer
  stderr :: buffer

text \<open>The two options the module passes; \<open>None\<close> is an option left out.\<close>

record exec_options =
  stdio :: "jsstring option"
  encoding :: "jsstring option"

text \<open>What \<open>execSync\<close> returns: a \<open>Buffer\<close>, or a string when an encoding is asked for.\<close>

datatype exec_output = Buffer buffer | Text jsstring

text \<open>
  The exceptions \<open>execSync\<close> throws: a \<open>TypeError\<close> with a Node.js error code when
  an argument is refused before anything is started, and the error of a failed child,
  which carries the whole result of \<open>spawnSync\<close>.
\<close>

datatype node_error_code = ERR_INVALID_ARG_VALUE

datatype js_error = TypeError node_error_code | ChildProcessError spawn_result

text \<open>
  The host: \<open>spawnShell h command options w\<close> runs \<open>command\<close> in the system shell
  from the state \<open>w\<close> of the machine, waits for the child to end, and gives what
  \<open>spawnSync\<close> reports together with the state the machine is left in (everything the
  child did to it, and the copy of the child's \<open>stderr\<close> that \<open>execSync\<close> forwards
  when \<open>stdio\<close> is left out).  \<open>toString h enc\<close> is \<open>Buffer.prototype.toString(enc)\<close>.
  A child that never ends has no result: \<open>execSync\<close> is synchronous and sets no time
  limit here, so the model describes the calls that come back.
\<close>

record 'w host =
  spawnShell :: "jsstring \<Rightarrow> exec_options \<Rightarrow> 'w \<Rightarrow> spawn_result \<times> 'w"
  toString :: "jsstring \<Rightarrow> buffer \<Rightarrow> jsstring"

text \<open>
  \<open>validateArgumentNullCheck\<close>, which \<open>normalizeExecArgs\<close> applies to the command:
  a string that holds the code unit 0 is refused.  (The command of this module is
  always a string, the value of a template literal, so \<open>validateString\<close> passes.)
\<close>

definition validateArgumentNullCheck :: "jsstring \<Rightarrow> js_error option" where
  "validateArgumentNullCheck arg =
     (if 0 \<in> set arg then Some (TypeError ERR_INVALID_ARG_VALUE) else None)"

text \<open>A child succeeded when \<open>spawnSync\<close> reports no error and exit code 0.\<close>

definition succeeded :: "spawn_result \<Rightarrow> bool" where
  "succeeded ret = (error ret = None \<and> status ret = Some 0)"

definition checkExecSyncError :: "spawn_result \<Rightarrow> js_error option" where
  "checkExecSyncError ret = (if succeeded ret then None else Some (ChildProcessError ret))"

text \<open>
  \<open>execSync(command, options)\<close>: the command is validated first, and a refused command
  throws with no child started; then the child runs; \<open>execSync\<close> throws when the
  child failed, and returns the child's \<open>stdout\<close> otherwise, as a string when
  \<open>options.encoding\<close> is set and is not \<open>"buffer"\<close>, as a \<open>Buffer\<close> by default.
\<close>

definition execSync ::
  "'w host \<Rightarrow> jsstring \<Rightarrow> exec_options \<Rightarrow> 'w \<Rightarrow> (js_error + exec_output) \<times> 'w" where
  "execSync h command options w =
     (case validateArgumentNullCheck command of
        Some err \<Rightarrow> (Inl err, w)
      | None \<Rightarrow>
          (case spawnShell h command options w of
             (ret, w') \<Rightarrow>
               (case checkExecSyncError ret of
                  Some err \<Rightarrow> (Inl err, w')
                | None \<Rightarrow>
                    (Inr (case encoding options of
                            None \<Rightarrow> Buffer (stdout ret)
                          | Some enc \<Rightarrow>
                              if enc = js ''buffer'' then Buffer (stdout ret)
                              else Text (toString h enc (stdout ret))),
                     w'))))"

subsection \<open>Statements of JavaScript\<close>

text \<open>
  A statement ends normally, with \<open>return\<close>, or with a thrown exception; an expression
  gives a value or throws.  Both may change the state of the machine.
\<close>

datatype 'a completion = Normal | Return 'a | Throw js_error

type_synonym ('w, 'a) stmt = "'w \<Rightarrow> 'a completion \<times> 'w"

type_synonym ('w, 'v) expr = "'w \<Rightarrow> (js_error + 'v) \<times> 'w"

definition literal :: "'v \<Rightarrow> ('w, 'v) expr" where
  "literal v w = (Inr v, w)"

text \<open>An expression statement \<open>e;\<close> drops the value of \<open>e\<close>.\<close>

definition expr_stmt :: "('w, 'v) expr \<Rightarrow> ('w, 'a) stmt" where
  "expr_stmt e w = (case e w of (Inl err, w') \<Rightarrow> (Throw err, w') | (Inr _, w') \<Rightarrow> (Normal, w'))"

text \<open>\<open>return e;\<close>\<close>

definition return_stmt :: "('w, 'a) expr \<Rightarrow> ('w, 'a) stmt" where
  "return_stmt e w = (case e w of (Inl err, w') \<Rightarrow> (Throw err, w') | (Inr v, w') \<Rightarrow> (Return v, w'))"

text \<open>The empty block \<open>{}\<close>.\<close>

definition skip :: "('w, 'a) stmt" where
  "skip w = (Normal, w)"

text \<open>\<open>s; t\<close>: \<open>t\<close> runs only when \<open>s\<close> ends normally.\<close>

definition sequence :: "('w, 'a) stmt \<Rightarrow> ('w, 'a) stmt \<Rightarrow> ('w, 'a) stmt" where
  "sequence s t w = (case s w of (Normal, w') \<Rightarrow> t w' | (c, w') \<Rightarrow> (c, w'))"

text \<open>\<open>try { block } catch { handler }\<close>: only a thrown exception reaches the handler.\<close>

definition try_catch :: "('w, 'a) stmt \<Rightarrow> ('w, 'a) stmt \<Rightarrow> ('w, 'a) stmt" where
  "try_catch block handler w =
     (case block w of (Throw err, w') \<Rightarrow> handler w' | (c, w') \<Rightarrow> (c, w'))"

text \<open>
  \<open>for (const x of xs) { body }\<close> over an array literal: the elements in order; a
  \<open>return\<close> or an exception in the body ends the loop.
\<close>

fun for_of :: "'x list \<Rightarrow> ('x \<Rightarrow> ('w, 'a) stmt) \<Rightarrow> ('w, 'a) stmt" where
  "for_of [] body w = (Normal, w)"
| "for_of (x # xs) body w =
     (case body x w of (Normal, w') \<Rightarrow> for_of xs body w' | (c, w') \<Rightarrow> (c, w'))"

text \<open>
  A call of a function with the given body: the value returned (\<open>None\<close> is
  \<open>undefined\<close>, for a body that ends without \<open>return\<close>), or the exception that
  leaves the function.
\<close>

definition call :: "('w, 'a) stmt \<Rightarrow> 'w \<Rightarrow> (js_error + 'a option) \<times> 'w" where
  "call body w =
     (case body w of
        (Normal, w') \<Rightarrow> (Inr None, w')
      | (Return v, w') \<Rightarrow> (Inr (Some v), w')
      | (Throw err, w') \<Rightarrow> (Inl err, w'))"

subsection \<open>The module\<close>

definition VERSION :: jsstring where
  "VERSION = js ''1.0.0''"

definition PYTHON_PACKAGE :: jsstring where
  "PYTHON_PACKAGE = js ''skskyforge''"

text \<open>The template literal \<open>`${py} -c "import skskyforge"`\<close>.\<close>

definition import_command :: "jsstring \<Rightarrow> jsstring" where
  \<open>import_command py = py @ js '' -c "import skskyforge"''\<close>

text \<open>The options \<open>{ stdio: "pipe" }\<close> of \<open>checkInstalled\<close>.\<close>

definition pipe_options :: exec_options where
  "pipe_options = \<lparr>stdio = Some (js ''pipe''), encoding = None\<rparr>"

text \<open>
  \<^verbatim>\<open>
  function checkInstalled() {
    for (const py of ["python3", "python"]) {
      try {
        execSync(`${py} -c "import skskyforge"`, { stdio: "pipe" });
        return true;
      } catch {}
    }
    return false;
  }
  \<close>
\<close>

definition checkInstalled :: "'w host \<Rightarrow> 'w \<Rightarrow> (js_error + bool option) \<times> 'w" where
  "checkInstalled h =
     call
       (sequence
          (for_of [js ''python3'', js ''python'']
             (\<lambda>py. try_catch
                     (sequence
                        (expr_stmt (execSync h (import_command py) pipe_options))
                        (return_stmt (literal True)))
                     skip))
          (return_stmt (literal False)))"

text \<open>The template literal \<open>`skskyforge ${args}`\<close>, for a string \<open>args\<close>.\<close>

definition skskyforge_command :: "jsstring \<Rightarrow> jsstring" where
  "skskyforge_command args = js ''skskyforge '' @ args"

text \<open>The options \<open>{ encoding: "utf-8" }\<close> of \<open>run\<close>.\<close>

definition utf8_options :: exec_options where
  "utf8_options = \<lparr>stdio = None, encoding = Some (js ''utf-8'')\<rparr>"

text \<open>
  \<^verbatim>\<open>
  function run(args) {
    return execSync(`skskyforge ${args}`, { encoding: "utf-8" });
  }
  \<close>
\<close>

definition run :: "'w host \<Rightarrow> jsstring \<Rightarrow> 'w \<Rightarrow> (js_error + exec_output option) \<times> 'w" where
  "run h args = call (return_stmt (execSync h (skskyforge_command args) utf8_options))"

subsection \<open>Observing the commands a function starts\<close>

text \<open>
  \<open>recording h\<close> is the host \<open>h\<close> with a log: every command started is appended,
  with its options, to the list kept beside the state of the machine.
\<close>

definition recording :: "'w host \<Rightarrow> ('w \<times> (jsstring \<times> exec_options) list) host" where
  "recording h =
     \<lparr>spawnShell = (\<lambda>command options (w, log).
        case spawnShell h command options w of
          (ret, w') \<Rightarrow> (ret, (w', log @ [(command, options)]))),
      toString = toString h\<rparr>"


subsection \<open>An example machine\<close>

text \<open>
  A machine without \<open>python3\<close>, where \<open>python\<close> can import the package and
  \<open>skskyforge --version\<close> prints \<open>1.0.0\<close>; every other command ends with exit code
  127.  Its state counts the children started.  Its children print ASCII only, which
  every encoding of the module decodes byte by byte; any other byte is shown as U+FFFD.
\<close>

definition exited :: "int \<Rightarrow> buffer \<Rightarrow> spawn_result" where
  "exited code out = \<lparr>error = None, status = Some code, stdout = out, stderr = []\<rparr>"

definition example_host :: "nat host" where
  \<open>example_host =
     \<lparr>spawnShell = (\<lambda>command options n.
        (if command = map of_char ''python -c "import skskyforge"'' then exited 0 []
         else if command = map of_char ''skskyforge --version''
           then exited 0 (map of_char ''1.0.0'')
         else exited 127 [],
         Suc n)),
      toString = (\<lambda>enc bytes. map (\<lambda>b. if b < 0x80 then ucast b else 0xFFFD) bytes)\<rparr>\<close>

section \<open>Properties of the bridge\<close>

subsection \<open>Auxiliary facts\<close>

lemma call_return_stmt:
  "call (return_stmt e) w = (case e w of (r, w') \<Rightarrow> (map_sum id Some r, w'))"
  by (simp add: call_def return_stmt_def split: prod.splits sum.splits)

lemma execSync_cases:
  "execSync h command options w =
     (if 0 \<in> set command then (Inl (TypeError ERR_INVALID_ARG_VALUE), w)
      else (case spawnShell h command options w of
        (ret, w') \<Rightarrow>
          (if succeeded ret
           then Inr (case encoding options of
                       None \<Rightarrow> Buffer (stdout ret)
                     | Some enc \<Rightarrow>
                         if enc = js ''buffer'' then Buffer (stdout ret)
                         else Text (toString h enc (stdout ret)))
           else Inl (ChildProcessError ret),
           w')))"
  by (simp add: execSync_def validateArgumentNullCheck_def checkExecSyncError_def
      split: prod.splits)

text \<open>One round of the loop of \<open>checkInstalled\<close>: the exception is swallowed.\<close>

lemma probe_round:
  "0 \<notin> set command \<Longrightarrow>
   try_catch
     (sequence (expr_stmt (execSync h command options)) (return_stmt (literal True)))
     skip w =
   (case spawnShell h command options w of
      (ret, w') \<Rightarrow> (if succeeded ret then Return True else Normal, w'))"
  by (simp add: try_catch_def sequence_def expr_stmt_def return_stmt_def literal_def skip_def
      execSync_cases split: prod.splits)

text \<open>The commands and options of the module, written out.\<close>

lemma import_command_python3:
  \<open>import_command (js ''python3'') = map of_char ''python3 -c "import skskyforge"''\<close>
  by (simp add: import_command_def js_def)

lemma import_command_python:
  \<open>import_command (js ''python'') = map of_char ''python -c "import skskyforge"''\<close>
  by (simp add: import_command_def js_def)

lemma pipe_options_literal:
  "pipe_options = \<lparr>stdio = Some (map of_char ''pipe''), encoding = None\<rparr>"
  by (simp add: pipe_options_def js_def)

lemma utf8_options_literal:
  "utf8_options = \<lparr>stdio = None, encoding = Some (map of_char ''utf-8'')\<rparr>"
  by (simp add: utf8_options_def js_def)

lemma skskyforge_command_nul:
  "0 \<in> set (skskyforge_command args) \<longleftrightarrow> 0 \<in> set args"
  by (simp add: skskyforge_command_def js_def)

text \<open>What the two functions do, in terms of the children they start.\<close>

lemma checkInstalled_cases:
  \<open>checkInstalled h w =
     (case spawnShell h (map of_char ''python3 -c "import skskyforge"'')
             \<lparr>stdio = Some (map of_char ''pipe''), encoding = None\<rparr> w of
        (ret3, w3) \<Rightarrow>
          if succeeded ret3 then (Inr (Some True), w3)
          else (case spawnShell h (map of_char ''python -c "import skskyforge"'')
                       \<lparr>stdio = Some (map of_char ''pipe''), encoding = None\<rparr> w3 of
                  (ret, w') \<Rightarrow> (Inr (Some (succeeded ret)), w')))\<close>
proof -
  have n3: "0 \<notin> set (import_command (js ''python3''))"
    by (simp add: import_command_python3)
  have n: "0 \<notin> set (import_command (js ''python''))"
    by (simp add: import_command_python)
  have "checkInstalled h w =
     (case spawnShell h (import_command (js ''python3'')) pipe_options w of
        (ret3, w3) \<Rightarrow>
          if succeeded ret3 then (Inr (Some True), w3)
          else (case spawnShell h (import_command (js ''python'')) pipe_options w3 of
                  (ret, w') \<Rightarrow> (Inr (Some (succeeded ret)), w')))"
    by (simp add: checkInstalled_def call_def sequence_def probe_round [OF n3]
        probe_round [OF n] return_stmt_def literal_def split: prod.splits)
  then show ?thesis
    by (simp only: import_command_python3 import_command_python pipe_options_literal)
qed

lemma run_cases:
  "run h args w =
     (if 0 \<in> set args then (Inl (TypeError ERR_INVALID_ARG_VALUE), w)
      else (case spawnShell h (map of_char ''skskyforge '' @ args)
                   \<lparr>stdio = None, encoding = Some (map of_char ''utf-8'')\<rparr> w of
        (ret, w') \<Rightarrow>
          (if succeeded ret
           then Inr (Some (Text (toString h (map of_char ''utf-8'') (stdout ret))))
           else Inl (ChildProcessError ret),
           w')))"
proof -
  have "(map of_char ''utf-8'' :: jsstring) \<noteq> js ''buffer''"
    by (simp add: js_def)
  then show ?thesis
    by (simp add: run_def call_return_stmt execSync_cases skskyforge_command_nul
        utf8_options_literal split: prod.splits)
      (simp add: skskyforge_command_def js_def)
qed

text \<open>The recording host.\<close>

lemma spawnShell_recording:
  "spawnShell (recording h) command options (w, log) =
     (case spawnShell h command options w of
        (ret, w') \<Rightarrow> (ret, (w', log @ [(command, options)])))"
  by (simp add: recording_def)


subsection \<open>The claims about \<open>run\<close> and \<open>checkInstalled\<close>\<close>




text \<open>
  Claim C8.  \<open>checkInstalled()\<close> never throws and never ends without a value: on
  every machine it returns a boolean.  The command \<open>python3 -c "import skskyforge"\<close>
  is tried first; when that child succeeds the result is \<open>true\<close> and \<open>python\<close> is not
  tried; otherwise \<open>python -c "import skskyforge"\<close> is tried and the result says
  whether that child succeeded, so it is \<open>false\<close> exactly when both attempts fail.
\<close>

theorem checkInstalled_total:
  \<open>(\<exists>b w'. checkInstalled h w = (Inr (Some b), w')) \<and>
   checkInstalled h w =
     (case spawnShell h (map of_char ''python3 -c "import skskyforge"'')
             \<lparr>stdio = Some (map of_char ''pipe''), encoding = None\<rparr> w of
        (ret3, w3) \<Rightarrow>
          if error ret3 = None \<and> status ret3 = Some 0 then (Inr (Some True), w3)
          else (case spawnShell h (map of_char ''python -c "import skskyforge"'')
                       \<lparr>stdio = Some (map of_char ''pipe''), encoding = None\<rparr> w3 of
                  (ret, w') \<Rightarrow>
                    (Inr (Some (error ret = None \<and> status ret = Some 0)), w'))) \<and>
   map fst (snd (snd (checkInstalled (recording h) (w, [])))) =
     (case spawnShell h (map of_char ''python3 -c "import skskyforge"'')
             \<lparr>stdio = Some (map of_char ''pipe''), encoding = None\<rparr> w of
        (ret3, w3) \<Rightarrow>
          if error ret3 = None \<and> status ret3 = Some 0
          then [map of_char ''python3 -c "import skskyforge"'']
          else [map of_char ''python3 -c "import skskyforge"'',
                map of_char ''python -c "import skskyforge"''])\<close>
proof -
  have "\<exists>b w'. checkInstalled h w = (Inr (Some b), w')"
    by (auto simp add: checkInstalled_cases split: prod.splits)
  moreover have
    \<open>checkInstalled h w =
     (case spawnShell h (map of_char ''python3 -c "import skskyforge"'')
             \<lparr>stdio = Some (map of_char ''pipe''), encoding = None\<rparr> w of
        (ret3, w3) \<Rightarrow>
          if error ret3 = None \<and> status ret3 = Some 0 then (Inr (Some True), w3)
          else (case spawnShell h (map of_char ''python -c "import skskyforge"'')
                       \<lparr>stdio = Some (map of_char ''pipe''), encoding = None\<rparr> w3 of
                  (ret, w') \<Rightarrow>
                    (Inr (Some (error ret = None \<and> status ret = Some 0)), w')))\<close>
    using checkInstalled_cases [of h w] by (simp only: succeeded_def)
  moreover have
    \<open>map fst (snd (snd (checkInstalled (recording h) (w, [])))) =
     (case spawnShell h (map of_char ''python3 -c "import skskyforge"'')
             \<lparr>stdio = Some (map of_char ''pipe''), encoding = None\<rparr> w of
        (ret3, w3) \<Rightarrow>
          if error ret3 = None \<and> status ret3 = Some 0
          then [map of_char ''python3 -c "import skskyforge"'']
          else [map of_char ''python3 -c "import skskyforge"'',
                map of_char ''python -c "import skskyforge"''])\<close>
    by (auto simp add: checkInstalled_cases spawnShell_recording succeeded_def
        split: prod.splits)
  ultimately show ?thesis by blast
qed

theorem checkInstalled_total_witness:
  \<open>checkInstalled example_host 0 = (Inr (Some True), 2) \<and>
   map fst (snd (snd (checkInstalled (recording example_host) (0, [])))) =
     [map of_char ''python3 -c "import skskyforge"'',
      map of_char ''python -c "import skskyforge"'']\<close>
  using checkInstalled_total [of example_host 0]
  by (simp add: example_host_def exited_def)

text \<open>
  Claim C9.  \<open>run(args)\<close> has no error handling of its own.  When the child succeeds
  (no spawn error, exit code 0) it returns the child's \<open>stdout\<close> as a string, decoded
  as UTF-8; when the child fails, the exception of \<open>execSync\<close> leaves \<open>run\<close>
  unchanged, and nothing else is tried.  The same holds for the exception of the
  argument check, thrown before any child is started.
\<close>

theorem run_returns_stdout_or_throws:
  "run h args w =
     (if 0 \<in> set args then (Inl (TypeError ERR_INVALID_ARG_VALUE), w)
      else (case spawnShell h (map of_char ''skskyforge '' @ args)
                   \<lparr>stdio = None, encoding = Some (map of_char ''utf-8'')\<rparr> w of
        (ret, w') \<Rightarrow>
          (if error ret = None \<and> status ret = Some 0
           then Inr (Some (Text (toString h (map of_char ''utf-8'') (stdout ret))))
           else Inl (ChildProcessError ret),
           w'))) \<and>
   (case fst (execSync h (map of_char ''skskyforge '' @ args)
                \<lparr>stdio = None, encoding = Some (map of_char ''utf-8'')\<rparr> w) of
      Inl err \<Rightarrow> fst (run h args w) = Inl err
    | Inr out \<Rightarrow> fst (run h args w) = Inr (Some out))"
proof -
  have "run h args w =
     (if 0 \<in> set args then (Inl (TypeError ERR_INVALID_ARG_VALUE), w)
      else (case spawnShell h (map of_char ''skskyforge '' @ args)
                   \<lparr>stdio = None, encoding = Some (map of_char ''utf-8'')\<rparr> w of
        (ret, w') \<Rightarrow>
          (if error ret = None \<and> status ret = Some 0
           then Inr (Some (Text (toString h (map of_char ''utf-8'') (stdout ret))))
           else Inl (ChildProcessError ret),
           w')))"
    using run_cases [of h args w] by (simp only: succeeded_def)
  moreover have "case fst (execSync h (map of_char ''skskyforge '' @ args)
                \<lparr>stdio = None, encoding = Some (map of_char ''utf-8'')\<rparr> w) of
      Inl err \<Rightarrow> fst (run h args w) = Inl err
    | Inr out \<Rightarrow> fst (run h args w) = Inr (Some out)"
    by (simp add: run_def call_return_stmt skskyforge_command_def utf8_options_def js_def
        split: prod.splits sum.splits)
  ultimately show ?thesis by blast
qed

theorem run_returns_stdout_or_throws_witness:
  "run example_host (map of_char ''--version'') 0 =
     (Inr (Some (Text (map of_char ''1.0.0''))), 1) \<and>
   run example_host (map of_char ''daily'') 0 =
     (Inl (ChildProcessError
        \<lparr>error = None, status = Some 127, stdout = [], stderr = []\<rparr>), 1) \<and>
   run example_host (map of_char ''daily'' @ [0]) 0 =
     (Inl (TypeError ERR_INVALID_ARG_VALUE), 0)"
  using run_returns_stdout_or_throws [of example_host "map of_char ''--version''" 0]
    run_returns_stdout_or_throws [of example_host "map of_char ''daily''" 0]
    run_returns_stdout_or_throws [of example_host "map of_char ''daily'' @ [0]" 0]
  by (simp add: example_host_def exited_def)




end
